theory Spec2Isabelle
  imports Complex_Main
begin

section \<open>Regular expressions of the classifier\<close>

text \<open>
  The classifier of \<^verbatim>\<open>src/app.js\<close> is one anchored regular expression, applied with
  \<^verbatim>\<open>RegExp.prototype.test\<close>. The constructs it uses are literals, character ranges
  such as \<^verbatim>\<open>[0-9]\<close>, character sets such as \<^verbatim>\<open>[01]\<close>, sequencing, alternation and the
  optional marker \<^verbatim>\<open>?\<close>. Capture groups only group.
\<close>

datatype regex =
    Chr char
  | Rng char char
  | Cls "char list"
  | Seq regex regex
  | Alt regex regex
  | Opt regex

definition in_range :: "char \<Rightarrow> char \<Rightarrow> char \<Rightarrow> bool" where
  "in_range lo hi c = ((of_char lo :: nat) \<le> of_char c \<and> (of_char c :: nat) \<le> of_char hi)"

text \<open>
  A backtracking matcher: \<open>rmatch r s\<close> lists, in the order a backtracking engine tries
  them, the rests of \<open>s\<close> left after \<open>r\<close> has consumed a prefix. An optional item is
  greedy: the engine first tries to match it and then to skip it.
\<close>

fun rmatch :: "regex \<Rightarrow> string \<Rightarrow> string list" where
  "rmatch (Chr c) s = (case s of [] \<Rightarrow> [] | x # xs \<Rightarrow> if x = c then [xs] else [])"
| "rmatch (Rng lo hi) s = (case s of [] \<Rightarrow> [] | x # xs \<Rightarrow> if in_range lo hi x then [xs] else [])"
| "rmatch (Cls cs) s = (case s of [] \<Rightarrow> [] | x # xs \<Rightarrow> if x \<in> set cs then [xs] else [])"
| "rmatch (Seq r1 r2) s = concat (map (rmatch r2) (rmatch r1 s))"
| "rmatch (Alt r1 r2) s = rmatch r1 s @ rmatch r2 s"
| "rmatch (Opt r) s = rmatch r s @ [s]"

text \<open>\<^verbatim>\<open>/^r$/.test(s)\<close>: some way of matching \<open>r\<close> consumes the whole of \<open>s\<close>.\<close>

definition test :: "regex \<Rightarrow> string \<Rightarrow> bool" where
  "test r s = ([] \<in> set (rmatch r s))"

text \<open>
  The octet pattern \<^verbatim>\<open>(25[0-5]|2[0-4][0-9]|[01]?[0-9][0-9]?)\<close> of
  \<^verbatim>\<open>checkIpAddress\<close>, and the pattern of the whole address: four octets
  separated by \<^verbatim>\<open>\.\<close>.
\<close>

definition digit_re :: regex where
  "digit_re = Rng (CHR ''0'') (CHR ''9'')"

definition octet_re :: regex where
  "octet_re =
     Alt (Seq (Chr (CHR ''2'')) (Seq (Chr (CHR ''5'')) (Rng (CHR ''0'') (CHR ''5''))))
    (Alt (Seq (Chr (CHR ''2'')) (Seq (Rng (CHR ''0'') (CHR ''4'')) digit_re))
         (Seq (Opt (Cls ''01'')) (Seq digit_re (Opt digit_re))))"

definition dot_re :: regex where
  "dot_re = Chr (CHR ''.'')"

definition ip_re :: regex where
  "ip_re =
     Seq octet_re (Seq dot_re (Seq octet_re (Seq dot_re (Seq octet_re (Seq dot_re octet_re)))))"

text \<open>\<^verbatim>\<open>function checkIpAddress(ipOrUrl)\<close> (src/app.js, lines 142-146).\<close>

definition checkIpAddress :: "string \<Rightarrow> bool" where
  "checkIpAddress ipOrUrl = test ip_re ipOrUrl"

text \<open>
  The other revision of \<^verbatim>\<open>checkStatus\<close> kept in the same file (lines 364-368) inlines
  the pattern, and its second, third and fourth octets read
  \<^verbatim>\<open>([0-5]?[0-9]|[01]?[0-9][0-9]?)\<close>.
\<close>

definition octet_re_v2 :: regex where
  "octet_re_v2 =
     Alt (Seq (Opt (Rng (CHR ''0'') (CHR ''5''))) digit_re)
         (Seq (Opt (Cls ''01'')) (Seq digit_re (Opt digit_re)))"

definition ip_re_v2 :: regex where
  "ip_re_v2 =
     Seq octet_re (Seq dot_re (Seq octet_re_v2 (Seq dot_re (Seq octet_re_v2 (Seq dot_re octet_re_v2)))))"

definition isIpAddress_v2 :: "string \<Rightarrow> bool" where
  "isIpAddress_v2 ipOrUrl = test ip_re_v2 ipOrUrl"

subsection \<open>The classification the specification describes\<close>

text \<open>
  Following the words of the specification: a dotted quad is four fields separated by
  dots; each field is an octet written in decimal, one to three digits long, with a value
  from 0 to 255.
\<close>

definition is_digit :: "char \<Rightarrow> bool" where
  "is_digit c = in_range (CHR ''0'') (CHR ''9'') c"

definition digit_val :: "char \<Rightarrow> nat" where
  "digit_val c = of_char c - 48"

definition decimal :: "string \<Rightarrow> nat" where
  "decimal f = foldl (\<lambda>n c. 10 * n + digit_val c) 0 f"

definition is_octet :: "string \<Rightarrow> bool" where
  "is_octet f = (f \<noteq> [] \<and> length f \<le> 3 \<and> list_all is_digit f \<and> decimal f \<le> 255)"

fun split_on :: "char \<Rightarrow> string \<Rightarrow> string list" where
  "split_on sep [] = [[]]"
| "split_on sep (c # cs) =
     (if c = sep then [] # split_on sep cs
      else (case split_on sep cs of [] \<Rightarrow> [[c]] | f # fs \<Rightarrow> (c # f) # fs))"

definition dotted_quad :: "string \<Rightarrow> bool" where
  "dotted_quad s =
     (case split_on (CHR ''.'') s of
        [a, b, c, d] \<Rightarrow> is_octet a \<and> is_octet b \<and> is_octet c \<and> is_octet d
      | _ \<Rightarrow> False)"

subsection \<open>The language of a pattern\<close>

text \<open>
  The strings a pattern matches in full, the code of a character, and the inverse of
  \<open>split_on\<close>: the three notions the proofs about the classifier go through.
\<close>

fun lang :: "regex \<Rightarrow> string set" where
  "lang (Chr c) = {[c]}"
| "lang (Rng lo hi) = {[x] | x. in_range lo hi x}"
| "lang (Cls cs) = {[x] | x. x \<in> set cs}"
| "lang (Seq r1 r2) = {p @ q | p q. p \<in> lang r1 \<and> q \<in> lang r2}"
| "lang (Alt r1 r2) = lang r1 \<union> lang r2"
| "lang (Opt r) = insert [] (lang r)"

definition char_code :: "char \<Rightarrow> nat" where
  "char_code c = of_char c"

fun join :: "char \<Rightarrow> string list \<Rightarrow> string" where
  "join sep [] = []"
| "join sep [f] = f"
| "join sep (f # g # fs) = f @ sep # join sep (g # fs)"



section \<open>The monitoring engine\<close>

subsection \<open>Data\<close>

text \<open>
  The attributes the two Sequelize models declare (\<^verbatim>\<open>models/monitor.js\<close> and
  \<^verbatim>\<open>models/monitorLog.js\<close>). Statuses are the strings the code compares; a column
  that may hold \<^verbatim>\<open>null\<close> is an option. Times are milliseconds since the epoch.
\<close>

record monitor =
  ipOrUrl :: string
  lastStatus :: "string option"
  lastChecked :: "nat option"
  webhookUrl :: "string option"

record monitorLog =
  log_ipOrUrl :: string
  log_status :: string
  log_timestamp :: "nat option"

text \<open>
  \<^verbatim>\<open>Monitor.create({ ipOrUrl: value.ipOrUrl })\<close>, the only way the application creates
  a monitor (the \<^verbatim>\<open>/add-monitor\<close> handler): the attributes not given take the model's
  defaults, \<^verbatim>\<open>defaultValue: 'offline'\<close> for \<^verbatim>\<open>lastStatus\<close> and \<^verbatim>\<open>null\<close> elsewhere.
\<close>

definition Monitor_create :: "string \<Rightarrow> monitor" where
  "Monitor_create a =
     \<lparr>ipOrUrl = a, lastStatus = Some ''offline'', lastChecked = None, webhookUrl = None\<rparr>"

text \<open>
  The other revision of \<^verbatim>\<open>models/monitor.js\<close> declares \<^verbatim>\<open>defaultValue: 'online'\<close>
  (and a \<^verbatim>\<open>portNumber\<close> that no code reads).
\<close>

definition Monitor_create_v2 :: "string \<Rightarrow> monitor" where
  "Monitor_create_v2 a =
     \<lparr>ipOrUrl = a, lastStatus = Some ''online'', lastChecked = None, webhookUrl = None\<rparr>"

text \<open>
  \<^verbatim>\<open>MonitorLog.create({ ipOrUrl: monitor.ipOrUrl, status })\<close>: the row of the log. Its
  \<^verbatim>\<open>timestamp\<close> is not given, and the default the model declares,
  \<^verbatim>\<open>sequelize.NOW\<close> read from the instance, is undefined: the column stays \<^verbatim>\<open>null\<close>.
\<close>

definition MonitorLog_row :: "string \<Rightarrow> string \<Rightarrow> monitorLog" where
  "MonitorLog_row a status = \<lparr>log_ipOrUrl = a, log_status = status, log_timestamp = None\<rparr>"

subsection \<open>The outside world\<close>

text \<open>
  A thrown or rejected JavaScript error, with the two properties the code reads.
  A result of type \<open>js_error + 'a\<close> is \<open>Inl\<close> for a rejected promise or a thrown
  error, and \<open>Inr\<close> for a value. A result of type \<open>(js_error + 'a) option\<close> is
  \<open>None\<close> for a promise that never settles, so that the code awaiting it never
  goes on.
\<close>

datatype js_error = JsError (err_name: string) (err_message: string)

datatype response = Response (ok: bool)

datatype ping_response = PingResponse (alive: bool)

datatype json = JString string | JNumber int | JObject "(string \<times> json) list"

text \<open>
  The second argument of \<^verbatim>\<open>fetch\<close>. The body is the value handed to
  \<^verbatim>\<open>JSON.stringify\<close>; \<open>signal\<close> is the delay in milliseconds after which the attached
  \<^verbatim>\<open>AbortController\<close> aborts the request, when one is attached.
\<close>

record request_init =
  http_method :: string
  headers :: "(string \<times> string) list"
  body :: "json option"
  signal :: "int option"

datatype level = Info | Err

text \<open>
  Every call that leaves the process, in the order the code makes it: the ping probe with
  its host and its \<^verbatim>\<open>timeout\<close> option in seconds (when given), \<^verbatim>\<open>fetch\<close>, the two
  writes to the store, and the log lines.
\<close>

datatype effect =
    Ping_probe string "rat option"
  | Fetch string request_init
  | MonitorLog_create string string
  | Monitor_update string nat
  | App_log level string
  | Console_log string

text \<open>
  What the outside world answers during one run of a pipeline: the number
  \<^verbatim>\<open>parseInt(process.env.TIMEOUT_MS, 10)\<close> (\<open>None\<close> for \<^verbatim>\<open>NaN\<close>), how the ping
  settles, how an HTTP request settles if it ever does (\<open>None\<close>: the server never
  answers and nothing ends the request), whether the store accepts each of the two
  writes, and the clock readings of \<^verbatim>\<open>new Date()\<close> and \<^verbatim>\<open>Date.now()\<close>.
\<close>

record world =
  env_TIMEOUT_MS :: "int option"
  ping_probe :: "string \<Rightarrow> rat option \<Rightarrow> js_error + ping_response"
  fetch :: "string \<Rightarrow> request_init \<Rightarrow> (js_error + response) option"
  db_create :: "js_error option"
  db_update :: "js_error option"
  new_Date :: nat
  Date_now :: nat

text \<open>\<^verbatim>\<open>const TIMEOUT_MS = parseInt(process.env.TIMEOUT_MS, 10) || 5000\<close>.\<close>

definition TIMEOUT_MS :: "world \<Rightarrow> int" where
  "TIMEOUT_MS w = (case env_TIMEOUT_MS w of None \<Rightarrow> 5000 | Some n \<Rightarrow> if n = 0 then 5000 else n)"

text \<open>
  The state one pipeline works on: the \<^verbatim>\<open>monitor\<close> instance it was handed, the row
  of the \<^verbatim>\<open>Monitor\<close> table the instance was read from, the \<^verbatim>\<open>MonitorLog\<close> table,
  and the calls made so far, oldest first.
\<close>

record state =
  monitor :: monitor
  row :: monitor
  logs :: "monitorLog list"
  trace :: "effect list"

definition emit :: "effect \<Rightarrow> state \<Rightarrow> state" where
  "emit e s = s\<lparr>trace := trace s @ [e]\<rparr>"

subsection \<open>The pipeline\<close>

text \<open>
  The options of the two requests: \<^verbatim>\<open>{ method: 'HEAD', signal: controller.signal }\<close>,
  where the controller aborts after \<^verbatim>\<open>TIMEOUT_MS\<close>, and the webhook's
  \<^verbatim>\<open>{ method: 'POST', headers: {...}, body: JSON.stringify({...}) }\<close>, which carries no
  signal. \<^verbatim>\<open>Math.floor(Date.now() / 1000)\<close> is the clock in whole seconds.
\<close>

definition head_init :: "world \<Rightarrow> request_init" where
  "head_init w = \<lparr>http_method = ''HEAD'', headers = [], body = None, signal = Some (TIMEOUT_MS w)\<rparr>"

definition webhook_init :: "world \<Rightarrow> string \<Rightarrow> request_init" where
  "webhook_init w status =
     \<lparr>http_method = ''POST'',
      headers = [(''Content-Type'', ''application/json'')],
      body = Some (JObject [(''monitor_status'', JString status),
                            (''timestamp'', JNumber (int (Date_now w div 1000)))]),
      signal = None\<rparr>"

text \<open>
  \<^verbatim>\<open>setTimeout(() => controller.abort(), TIMEOUT_MS)\<close> with
  \<^verbatim>\<open>fetch(..., { signal: controller.signal })\<close>: a request that would never settle is
  aborted by the timer and rejected with an \<open>AbortError\<close>. So the awaited HEAD request
  always settles.
\<close>

definition abort_error :: js_error where
  "abort_error = JsError ''AbortError'' ''The user aborted a request.''"

definition fetch_with_signal :: "world \<Rightarrow> string \<Rightarrow> request_init \<Rightarrow> js_error + response" where
  "fetch_with_signal w url init =
     (case fetch w url init of None \<Rightarrow> Inl abort_error | Some settled \<Rightarrow> settled)"

text \<open>
  \<^verbatim>\<open>async function checkStatus(monitor)\<close> (src/app.js, lines 149-182). The ping probe is
  given \<^verbatim>\<open>{ timeout: TIMEOUT_MS / 1000 }\<close>, a number of seconds (the quotient is taken
  exactly here; JavaScript rounds it to a double). On the URL branch an error whose name
  is not \<^verbatim>\<open>AbortError\<close> is thrown again.
\<close>

definition checkStatus :: "world \<Rightarrow> state \<Rightarrow> (js_error + string) \<times> state" where
  "checkStatus w s =
     (if checkIpAddress (ipOrUrl (monitor s)) then
        (let opts = Some (of_int (TIMEOUT_MS w) / 1000);
             s1 = emit (Ping_probe (ipOrUrl (monitor s)) opts) s
         in case ping_probe w (ipOrUrl (monitor s)) opts of
              Inr res \<Rightarrow> (Inr (if alive res then ''online'' else ''offline''), s1)
            | Inl error \<Rightarrow> (Inr ''offline'', s1))
      else
        (let s1 = emit (Fetch (ipOrUrl (monitor s)) (head_init w)) s
         in case fetch_with_signal w (ipOrUrl (monitor s)) (head_init w) of
              Inr res \<Rightarrow> (Inr (if ok res then ''online'' else ''offline''), s1)
            | Inl error \<Rightarrow>
                if err_name error = ''AbortError'' then (Inr ''offline'', s1)
                else (Inl error, s1)))"

text \<open>
  The other revision of \<^verbatim>\<open>checkStatus\<close> (lines 364-400): the inlined pattern, a ping
  probe without options, two \<^verbatim>\<open>console.log\<close> lines, and \<^verbatim>\<open>'timeout'\<close> for an aborted
  request.
\<close>

definition checkStatus_v2 :: "world \<Rightarrow> state \<Rightarrow> (js_error + string) \<times> state" where
  "checkStatus_v2 w s =
     (if isIpAddress_v2 (ipOrUrl (monitor s)) then
        (let s1 = emit (Console_log ''Ping'') s;
             s2 = emit (Ping_probe (ipOrUrl (monitor s)) None) s1
         in case ping_probe w (ipOrUrl (monitor s)) None of
              Inr res \<Rightarrow>
                (Inr (if alive res then ''online'' else ''offline''), emit (Console_log ''Res:'') s2)
            | Inl error \<Rightarrow> (Inr ''offline'', s2))
      else
        (let s1 = emit (Fetch (ipOrUrl (monitor s)) (head_init w)) s
         in case fetch_with_signal w (ipOrUrl (monitor s)) (head_init w) of
              Inr res \<Rightarrow> (Inr (if ok res then ''online'' else ''offline''), s1)
            | Inl error \<Rightarrow>
                if err_name error = ''AbortError'' then (Inr ''timeout'', s1)
                else (Inl error, s1)))"

text \<open>
  \<^verbatim>\<open>async function updateMonitorStatus(monitor, status)\<close> (lines 184-188): the row of
  the log first, then the monitor, then a log line. A write the store rejects throws, and
  what follows it is not run. \<^verbatim>\<open>monitor.update\<close> sets the two attributes on the
  instance and then saves them: when the store rejects the save, the instance carries
  the new values and the row does not.
\<close>

definition updateMonitorStatus :: "world \<Rightarrow> string \<Rightarrow> state \<Rightarrow> (js_error + unit) \<times> state" where
  "updateMonitorStatus w status s =
     (let s1 = emit (MonitorLog_create (ipOrUrl (monitor s)) status) s in
      case db_create w of
        Some error \<Rightarrow> (Inl error, s1)
      | None \<Rightarrow>
          (let s2 = s1\<lparr>logs := logs s1 @ [MonitorLog_row (ipOrUrl (monitor s)) status]\<rparr>;
               s3 = emit (Monitor_update status (new_Date w))
                      (s2\<lparr>monitor := (monitor s2)
                            \<lparr>lastStatus := Some status, lastChecked := Some (new_Date w)\<rparr>\<rparr>)
           in case db_update w of
                Some error \<Rightarrow> (Inl error, s3)
              | None \<Rightarrow>
                  (Inr (),
                   emit (App_log Info (ipOrUrl (monitor s) @ '' is now '' @ status))
                     (s3\<lparr>row := (row s3)
                           \<lparr>lastStatus := Some status, lastChecked := Some (new_Date w)\<rparr>\<rparr>))))"

text \<open>
  \<^verbatim>\<open>async function sendWebhook(monitor, status)\<close> (lines 190-210).
  \<^verbatim>\<open>!monitor.webhookUrl\<close> holds for \<^verbatim>\<open>null\<close> and for the empty string. The POST
  carries no signal: when the endpoint never answers, the \<^verbatim>\<open>await\<close> never returns. The
  response of the POST is not looked at.
\<close>

definition sendWebhook ::
  "world \<Rightarrow> string \<Rightarrow> state \<Rightarrow> (js_error + unit) option \<times> state" where
  "sendWebhook w status s =
     (case webhookUrl (monitor s) of
        None \<Rightarrow> (Some (Inr ()), s)
      | Some url \<Rightarrow>
          if url = [] then (Some (Inr ()), s)
          else
            (let s1 = emit (Fetch url (webhook_init w status)) s
             in case fetch w url (webhook_init w status) of
                  None \<Rightarrow> (None, s1)
                | Some (Inr res) \<Rightarrow>
                    (Some (Inr ()), emit (App_log Info (''Webhook sent to '' @ url @ '' for ''
                                             @ ipOrUrl (monitor s))) s1)
                | Some (Inl err) \<Rightarrow>
                    (Some (Inr ()), emit (App_log Err (''Failed to send webhook to '' @ url @ '': ''
                                             @ err_message err)) s1)))"

text \<open>
  The other revision of \<^verbatim>\<open>sendWebhook\<close> (lines 408-429) is the same function after a
  first line \<^verbatim>\<open>console.log('Webhook:', monitor)\<close>.
\<close>

definition sendWebhook_v2 ::
  "world \<Rightarrow> string \<Rightarrow> state \<Rightarrow> (js_error + unit) option \<times> state" where
  "sendWebhook_v2 w status s = sendWebhook w status (emit (Console_log ''Webhook:'') s)"

text \<open>
  \<^verbatim>\<open>async function handleMonitor(monitor)\<close> (lines 212-223). \<open>catch_log\<close> is its
  \<^verbatim>\<open>catch\<close> block. The function never returns when the webhook it awaits never does.
\<close>

definition catch_log :: "js_error \<Rightarrow> state \<Rightarrow> (js_error + unit) option \<times> state" where
  "catch_log error s =
     (Some (Inr ()), emit (App_log Err (''Error checking '' @ ipOrUrl (monitor s) @ '': ''
                              @ err_message error)) s)"

definition handleMonitor :: "world \<Rightarrow> state \<Rightarrow> (js_error + unit) option \<times> state" where
  "handleMonitor w s =
     (case checkStatus w s of
        (Inl error, s1) \<Rightarrow> catch_log error s1
      | (Inr status, s1) \<Rightarrow>
          if Some status \<noteq> lastStatus (monitor s1) then
            (case updateMonitorStatus w status s1 of
               (Inl error, s2) \<Rightarrow> catch_log error s2
             | (Inr _, s2) \<Rightarrow>
                 (case sendWebhook w status s2 of
                    (None, s3) \<Rightarrow> (None, s3)
                  | (Some (Inl error), s3) \<Rightarrow> catch_log error s3
                  | (Some (Inr _), s3) \<Rightarrow> (Some (Inr ()), s3)))
          else (Some (Inr ()), s1))"

text \<open>
  \<^verbatim>\<open>const monitors = await Monitor.findAll()\<close> of the next tick: the instance is read
  from the row again.
\<close>

definition reload :: "state \<Rightarrow> state" where
  "reload s = s\<lparr>monitor := row s\<rparr>"

subsection \<open>Observations on a run\<close>

text \<open>The requests of a trace that are webhook notifications, and its writes to the store.\<close>

fun is_post :: "effect \<Rightarrow> bool" where
  "is_post (Fetch url init) = (http_method init = ''POST'')"
| "is_post _ = False"

fun is_write :: "effect \<Rightarrow> bool" where
  "is_write (MonitorLog_create a st) = True"
| "is_write (Monitor_update st t) = True"
| "is_write _ = False"

fun is_error_log :: "effect \<Rightarrow> bool" where
  "is_error_log (App_log Err msg) = True"
| "is_error_log _ = False"

subsection \<open>Sample runs\<close>

text \<open>
  A world in which every host answers, every request succeeds and the store accepts every
  write; an error a request can be rejected with and one the store can reject a write
  with; a pipeline state just read from the store, with empty log and trace; and a
  monitored site that is online and has a webhook.
\<close>

definition calm_world :: world where
  "calm_world =
     \<lparr>env_TIMEOUT_MS = None,
      ping_probe = (\<lambda>host opts. Inr (PingResponse True)),
      fetch = (\<lambda>url init. Some (Inr (Response True))),
      db_create = None, db_update = None,
      new_Date = 1700000000005, Date_now = 1700000000009\<rparr>"

definition refused :: js_error where
  "refused = JsError ''FetchError'' ''connect ECONNREFUSED''"

definition busy :: js_error where
  "busy = JsError ''SequelizeTimeoutError'' ''SQLITE_BUSY: database is locked''"

definition fresh :: "monitor \<Rightarrow> state" where
  "fresh m = \<lparr>monitor = m, row = m, logs = [], trace = []\<rparr>"

definition site :: monitor where
  "site = \<lparr>ipOrUrl = ''http://example.com'', lastStatus = Some ''online'', lastChecked = None,
           webhookUrl = Some ''http://hooks.example.com/up''\<rparr>"

text \<open>
  Worlds that differ from the calm one in a single answer: the timeout is configured as
  2000 ms; the host does not reply to the ping; every request is refused; every request
  is aborted; no request is ever answered; the site answers the HEAD request with an
  error status; the webhook endpoint answers the POST with an error status, cannot be
  reached, or never answers; the store rejects the new row of the log, or the update of
  the monitor.
\<close>

definition configured_world :: world where
  "configured_world = calm_world\<lparr>env_TIMEOUT_MS := Some 2000\<rparr>"

definition dead_host_world :: world where
  "dead_host_world = calm_world\<lparr>ping_probe := (\<lambda>host opts. Inr (PingResponse False))\<rparr>"

definition refusing_world :: world where
  "refusing_world = calm_world\<lparr>fetch := (\<lambda>url init. Some (Inl refused))\<rparr>"

definition aborting_world :: world where
  "aborting_world = calm_world\<lparr>fetch := (\<lambda>url init. Some (Inl abort_error))\<rparr>"

definition silent_world :: world where
  "silent_world = calm_world\<lparr>fetch := (\<lambda>url init. None)\<rparr>"

definition site_down_world :: world where
  "site_down_world =
     calm_world\<lparr>fetch := (\<lambda>url init. if http_method init = ''HEAD'' then Some (Inr (Response False))
                                       else Some (Inr (Response True)))\<rparr>"




definition create_rejected_world :: world where
  "create_rejected_world = calm_world\<lparr>db_create := Some busy\<rparr>"

definition update_rejected_world :: world where
  "update_rejected_world = calm_world\<lparr>db_update := Some busy\<rparr>"

section \<open>The classifier\<close>

subsection \<open>The matcher computes the language\<close>

lemma rmatch_lang: "set (rmatch r s) = {t. \<exists>p \<in> lang r. s = p @ t}"
proof (induction r arbitrary: s)
  case (Seq r1 r2)
  have "t \<in> set (rmatch (Seq r1 r2) s) \<longleftrightarrow> (\<exists>p \<in> lang (Seq r1 r2). s = p @ t)" for t
  proof
    assume "t \<in> set (rmatch (Seq r1 r2) s)"
    then obtain u where u: "u \<in> set (rmatch r1 s)" "t \<in> set (rmatch r2 u)" by auto
    from u(1) obtain p where p: "p \<in> lang r1" "s = p @ u" by (auto simp: Seq)
    from u(2) obtain q where q: "q \<in> lang r2" "u = q @ t" by (auto simp: Seq)
    from p q have "p @ q \<in> lang (Seq r1 r2)" "s = (p @ q) @ t" by auto
    then show "\<exists>p \<in> lang (Seq r1 r2). s = p @ t" by blast
  next
    assume "\<exists>p \<in> lang (Seq r1 r2). s = p @ t"
    then obtain p q where pq: "p \<in> lang r1" "q \<in> lang r2" "s = p @ q @ t" by auto
    then have "q @ t \<in> set (rmatch r1 s)" "t \<in> set (rmatch r2 (q @ t))" by (auto simp: Seq)
    then show "t \<in> set (rmatch (Seq r1 r2) s)" by auto
  qed
  then show ?case by blast
qed (auto split: list.splits)

lemma test_lang: "test r s \<longleftrightarrow> s \<in> lang r"
  by (simp add: test_def rmatch_lang)

lemma lang_Seq_Chr: "s \<in> lang (Seq (Chr c) r) \<longleftrightarrow> (\<exists>q. s = c # q \<and> q \<in> lang r)"
  by auto

lemma lang_Seq_Rng:
  "s \<in> lang (Seq (Rng lo hi) r) \<longleftrightarrow> (\<exists>x q. s = x # q \<and> in_range lo hi x \<and> q \<in> lang r)"
proof
  assume "s \<in> lang (Seq (Rng lo hi) r)"
  then show "\<exists>x q. s = x # q \<and> in_range lo hi x \<and> q \<in> lang r" by auto
next
  assume "\<exists>x q. s = x # q \<and> in_range lo hi x \<and> q \<in> lang r"
  then obtain x q where "s = [x] @ q" "[x] \<in> lang (Rng lo hi)" "q \<in> lang r" by auto
  then show "s \<in> lang (Seq (Rng lo hi) r)" unfolding lang.simps(4) by blast
qed

lemma lang_Seq_Cls:
  "s \<in> lang (Seq (Cls cs) r) \<longleftrightarrow> (\<exists>x q. s = x # q \<and> x \<in> set cs \<and> q \<in> lang r)"
proof
  assume "s \<in> lang (Seq (Cls cs) r)"
  then show "\<exists>x q. s = x # q \<and> x \<in> set cs \<and> q \<in> lang r" by auto
next
  assume "\<exists>x q. s = x # q \<and> x \<in> set cs \<and> q \<in> lang r"
  then obtain x q where "s = [x] @ q" "[x] \<in> lang (Cls cs)" "q \<in> lang r" by auto
  then show "s \<in> lang (Seq (Cls cs) r)" unfolding lang.simps(4) by blast
qed

lemma lang_Seq_Opt: "s \<in> lang (Seq (Opt a) r) \<longleftrightarrow> s \<in> lang r \<or> s \<in> lang (Seq a r)"
  by auto

lemma lang_Rng: "s \<in> lang (Rng lo hi) \<longleftrightarrow> (\<exists>x. s = [x] \<and> in_range lo hi x)"
  by auto

lemma lang_Opt: "s \<in> lang (Opt r) \<longleftrightarrow> s = [] \<or> s \<in> lang r"
  by auto

lemma lang_Alt: "s \<in> lang (Alt a b) \<longleftrightarrow> s \<in> lang a \<or> s \<in> lang b"
  by auto

lemmas lang_mem =
  lang_Seq_Chr lang_Seq_Rng lang_Seq_Cls lang_Seq_Opt lang_Rng lang_Opt lang_Alt

subsection \<open>Octets\<close>

lemma chr_code:
  "c = CHR ''2'' \<longleftrightarrow> char_code c = 50" "c = CHR ''5'' \<longleftrightarrow> char_code c = 53"
  "c = CHR ''0'' \<longleftrightarrow> char_code c = 48" "c = CHR ''1'' \<longleftrightarrow> char_code c = 49"
  unfolding char_code_def
  using of_char_eq_iff [of c "CHR ''2''", where ?'a = nat]
    of_char_eq_iff [of c "CHR ''5''", where ?'a = nat]
    of_char_eq_iff [of c "CHR ''0''", where ?'a = nat]
    of_char_eq_iff [of c "CHR ''1''", where ?'a = nat]
  by simp_all

lemma in_range_code:
  "in_range (CHR ''0'') (CHR ''9'') c \<longleftrightarrow> 48 \<le> char_code c \<and> char_code c \<le> 57"
  "in_range (CHR ''0'') (CHR ''5'') c \<longleftrightarrow> 48 \<le> char_code c \<and> char_code c \<le> 53"
  "in_range (CHR ''0'') (CHR ''4'') c \<longleftrightarrow> 48 \<le> char_code c \<and> char_code c \<le> 52"
  by (simp_all add: in_range_def char_code_def)

lemma octet_shapes:
  "is_octet [] = False"
  "is_octet [a] \<longleftrightarrow> is_digit a"
  "is_octet [a, b] \<longleftrightarrow> is_digit a \<and> is_digit b"
  "is_octet [a, b, c] \<longleftrightarrow> is_digit a \<and> is_digit b \<and> is_digit c \<and>
      100 * digit_val a + 10 * digit_val b + digit_val c \<le> 255"
  "is_octet (a # b # c # d # r) = False"
  by (auto simp: is_octet_def decimal_def is_digit_def in_range_code digit_val_def char_code_def)

lemma lang_octet_shapes:
  "[] \<in> lang octet_re = False"
  "[a] \<in> lang octet_re \<longleftrightarrow> is_digit a"
  "[a, b] \<in> lang octet_re \<longleftrightarrow> is_digit a \<and> is_digit b"
  "[a, b, c] \<in> lang octet_re \<longleftrightarrow> is_digit a \<and> is_digit b \<and> is_digit c \<and>
      100 * digit_val a + 10 * digit_val b + digit_val c \<le> 255"
  "(a # b # c # d # r) \<in> lang octet_re = False"
      apply (simp_all only: octet_re_def digit_re_def lang_mem)
      apply (simp_all add: is_digit_def in_range_code chr_code digit_val_def)
   apply (fold char_code_def)
   apply arith+
  done

lemma lang_octet: "f \<in> lang octet_re \<longleftrightarrow> is_octet f"
proof (cases f)
  case Nil
  then show ?thesis by (simp only: lang_octet_shapes octet_shapes)
next
  case (Cons a f1)
  show ?thesis
  proof (cases f1)
    case Nil
    with Cons show ?thesis by (simp only: lang_octet_shapes octet_shapes)
  next
    case (Cons b f2)
    note f1 = this
    show ?thesis
    proof (cases f2)
      case Nil
      with \<open>f = a # f1\<close> f1 show ?thesis by (simp only: lang_octet_shapes octet_shapes)
    next
      case (Cons c f3)
      with \<open>f = a # f1\<close> f1 show ?thesis
        by (cases f3) (simp_all only: lang_octet_shapes octet_shapes)
    qed
  qed
qed

lemma octet_no_dot: "is_octet f \<Longrightarrow> CHR ''.'' \<notin> set f"
  by (auto simp: is_octet_def list_all_iff is_digit_def in_range_def)

subsection \<open>Fields\<close>

lemma split_on_not_Nil: "split_on sep s \<noteq> []"
  by (induction s) (auto split: list.splits)

lemma join_split_on: "join sep (split_on sep s) = s"
proof (induction s)
  case Nil
  show ?case by simp
next
  case (Cons c cs)
  show ?case
  proof (cases "split_on sep cs")
    case Nil
    then show ?thesis using split_on_not_Nil by blast
  next
    case (Cons f fs)
    with Cons.IH show ?thesis by (cases fs) auto
  qed
qed

lemma split_on_append: "sep \<notin> set a \<Longrightarrow> split_on sep (a @ sep # rest) = a # split_on sep rest"
  by (induction a) auto

lemma split_on_single: "sep \<notin> set a \<Longrightarrow> split_on sep a = [a]"
  by (induction a) auto

subsection \<open>The address pattern\<close>

lemma lang_octet_dot:
  "s \<in> lang (Seq octet_re (Seq dot_re r)) \<longleftrightarrow>
     (\<exists>a t. s = a @ CHR ''.'' # t \<and> is_octet a \<and> t \<in> lang r)"
proof
  assume "s \<in> lang (Seq octet_re (Seq dot_re r))"
  then obtain a u where "s = a @ u" "a \<in> lang octet_re" "u \<in> lang (Seq dot_re r)"
    by auto
  moreover from this(3) obtain t where "u = CHR ''.'' # t" "t \<in> lang r"
    by (auto simp: dot_re_def)
  ultimately show "\<exists>a t. s = a @ CHR ''.'' # t \<and> is_octet a \<and> t \<in> lang r"
    by (auto simp: lang_octet)
next
  assume "\<exists>a t. s = a @ CHR ''.'' # t \<and> is_octet a \<and> t \<in> lang r"
  then obtain a t where s: "s = a @ CHR ''.'' # t" and a: "a \<in> lang octet_re"
    and t: "t \<in> lang r"
    by (auto simp: lang_octet)
  from t have "CHR ''.'' # t \<in> lang (Seq dot_re r)"
    by (simp add: dot_re_def)
  with a s show "s \<in> lang (Seq octet_re (Seq dot_re r))"
    unfolding lang.simps(4) [of octet_re] by blast
qed

lemma lang_ip:
  "s \<in> lang ip_re \<longleftrightarrow>
     (\<exists>a b c d. s = a @ CHR ''.'' # b @ CHR ''.'' # c @ CHR ''.'' # d \<and>
        is_octet a \<and> is_octet b \<and> is_octet c \<and> is_octet d)"
  unfolding ip_re_def lang_octet_dot lang_octet
  by (rule iffI; elim exE conjE; hypsubst; intro exI conjI; (rule refl | assumption))

lemma checkIpAddress_iff: "checkIpAddress s \<longleftrightarrow> dotted_quad s"
proof
  assume "checkIpAddress s"
  then obtain a b c d where s: "s = a @ CHR ''.'' # b @ CHR ''.'' # c @ CHR ''.'' # d"
    and o: "is_octet a" "is_octet b" "is_octet c" "is_octet d"
    by (auto simp: checkIpAddress_def test_lang lang_ip)
  from o have "split_on (CHR ''.'') s = [a, b, c, d]"
    by (simp add: s split_on_append split_on_single octet_no_dot)
  with o show "dotted_quad s" by (simp add: dotted_quad_def)
next
  assume "dotted_quad s"
  then obtain a b c d where f: "split_on (CHR ''.'') s = [a, b, c, d]"
    and o: "is_octet a" "is_octet b" "is_octet c" "is_octet d"
    by (auto simp: dotted_quad_def split: list.splits)
  from f have "s = a @ CHR ''.'' # b @ CHR ''.'' # c @ CHR ''.'' # d"
    using join_split_on [of "CHR ''.''" s] by simp
  with o show "checkIpAddress s"
    unfolding checkIpAddress_def test_lang lang_ip by blast
qed
lemma classify_boundary:
  "checkIpAddress ''0.0.0.0''" "checkIpAddress ''255.255.255.255''"
  "\<not> checkIpAddress ''256.1.1.1''" "\<not> checkIpAddress ''http://example.com''"
  by code_simp+

lemma classify_samples:
  "checkIpAddress ''8.8.8.8''" "\<not> checkIpAddress ''http://example.com''"
  "isIpAddress_v2 ''8.8.8.8''" "\<not> isIpAddress_v2 ''http://example.com''"
  by code_simp+

text \<open>Leading zeros are part of the pattern, a field of four digits is not.\<close>

lemma classify_leading_zeros:
  "checkIpAddress ''010.001.00.9''" "\<not> checkIpAddress ''0000.1.1.1''"
  by code_simp+

text \<open>
  \<^verbatim>\<open>checkIpAddress\<close> answers true exactly for the dotted quads, four decimal fields of
  one to three digits, each with a value from 0 to 255, and false for every other
  string; \<open>0.0.0.0\<close> and \<open>255.255.255.255\<close> are literals, \<open>256.1.1.1\<close> and
  \<open>http://example.com\<close> are not. It is a function of the address alone.
\<close>

lemma classification_dotted_quad:
  "(checkIpAddress s \<longleftrightarrow> dotted_quad s) \<and>
   checkIpAddress ''0.0.0.0'' \<and> checkIpAddress ''255.255.255.255'' \<and>
   \<not> checkIpAddress ''256.1.1.1'' \<and> \<not> checkIpAddress ''http://example.com''"
  using checkIpAddress_iff [of s] classify_boundary by blast

lemma classification_dotted_quad_sample:
  "checkIpAddress ''192.168.1.254'' \<and> dotted_quad ''192.168.1.254'' \<and>
   split_on (CHR ''.'') ''192.168.1.254'' = [''192'', ''168'', ''1'', ''254'']"
proof -
  have "dotted_quad ''192.168.1.254''" by code_simp
  moreover have "split_on (CHR ''.'') ''192.168.1.254'' = [''192'', ''168'', ''1'', ''254'']"
    by simp
  ultimately show ?thesis
    using classification_dotted_quad [of "''192.168.1.254''"] by simp
qed

text \<open>
  The pattern inlined in the other revision of \<^verbatim>\<open>checkStatus\<close> accepts fewer
  addresses: its second, third and fourth fields stop at 199. What it accepts is a dotted
  quad, and a dotted quad with such a field above 199 is taken for a URL.
\<close>

lemma inline_pattern_v2:
  "isIpAddress_v2 ''255.199.59.0''" "\<not> isIpAddress_v2 ''10.0.0.200''"
  "checkIpAddress ''10.0.0.200''" "dotted_quad ''10.0.0.200''"
  by code_simp+

text \<open>
  Claim C5, on the pattern of the other revision (src/app.js, lines 364-368).
  \<open>255.255.255.255\<close> is a dotted quad with every octet in range, and
  \<^verbatim>\<open>checkIpAddress\<close> classifies it as an IP literal; the inlined pattern does not match
  it, so that revision of \<^verbatim>\<open>checkStatus\<close> probes it as a URL.
\<close>

theorem inline_pattern_rejects_boundary:
  "dotted_quad ''255.255.255.255'' \<and> checkIpAddress ''255.255.255.255'' \<and>
   \<not> isIpAddress_v2 ''255.255.255.255''"
  by code_simp


section \<open>The pipeline of one target\<close>

subsection \<open>What each stage changes\<close>

lemma checkStatus_monitor: "monitor (snd (checkStatus w s)) = monitor s"
  by (simp add: checkStatus_def emit_def Let_def split: sum.splits)

lemma checkStatus_row: "row (snd (checkStatus w s)) = row s"
  by (simp add: checkStatus_def emit_def Let_def split: sum.splits)

lemma checkStatus_logs: "logs (snd (checkStatus w s)) = logs s"
  by (simp add: checkStatus_def emit_def Let_def split: sum.splits)

lemma checkStatus_trace:
  "\<exists>e. trace (snd (checkStatus w s)) = trace s @ [e] \<and>
       \<not> is_write e \<and> \<not> is_post e \<and> \<not> is_error_log e"
  by (simp add: checkStatus_def emit_def Let_def head_init_def split: sum.splits)

lemma checkStatus_cases:
  "fst (checkStatus w s) =
     (if checkIpAddress (ipOrUrl (monitor s)) then
        Inr (if ping_probe w (ipOrUrl (monitor s)) (Some (of_int (TIMEOUT_MS w) / 1000))
                  = Inr (PingResponse True)
             then ''online'' else ''offline'')
      else (case fetch_with_signal w (ipOrUrl (monitor s)) (head_init w) of
              Inr res \<Rightarrow> Inr (if ok res then ''online'' else ''offline'')
            | Inl e \<Rightarrow> if err_name e = ''AbortError'' then Inr ''offline'' else Inl e))"
  apply (simp add: checkStatus_def Let_def split: sum.splits)
  apply (auto)
   apply (metis ping_response.collapse ping_response.sel)+
  done

lemma checkStatus_v2_cases:
  "fst (checkStatus_v2 w s) =
     (if isIpAddress_v2 (ipOrUrl (monitor s)) then
        Inr (if ping_probe w (ipOrUrl (monitor s)) None = Inr (PingResponse True)
             then ''online'' else ''offline'')
      else (case fetch_with_signal w (ipOrUrl (monitor s)) (head_init w) of
              Inr res \<Rightarrow> Inr (if ok res then ''online'' else ''offline'')
            | Inl e \<Rightarrow> if err_name e = ''AbortError'' then Inr ''timeout'' else Inl e))"
  apply (simp add: checkStatus_v2_def Let_def split: sum.splits)
  apply (auto)
   apply (metis ping_response.collapse ping_response.sel)+
  done

lemma fetch_with_signal_settled:
  "fetch w url init = Some r \<Longrightarrow> fetch_with_signal w url init = r"
  by (simp add: fetch_with_signal_def)

lemma fetch_with_signal_thrown:
  "fetch_with_signal w url init = Inl e \<Longrightarrow> err_name e \<noteq> ''AbortError'' \<Longrightarrow>
   fetch w url init = Some (Inl e)"
  by (auto simp: fetch_with_signal_def abort_error_def split: option.splits)

text \<open>A HEAD request nobody answers is aborted by the timer.\<close>

lemma unanswered_head_is_aborted:
  assumes "fetch w (ipOrUrl (monitor s)) (head_init w) = None"
  shows "\<not> checkIpAddress (ipOrUrl (monitor s)) \<Longrightarrow> fst (checkStatus w s) = Inr ''offline''"
    and "\<not> isIpAddress_v2 (ipOrUrl (monitor s)) \<Longrightarrow> fst (checkStatus_v2 w s) = Inr ''timeout''"
  using assms
  by (simp_all add: checkStatus_cases checkStatus_v2_cases fetch_with_signal_def abort_error_def)

lemma checkStatus_v2_ping:
  "isIpAddress_v2 (ipOrUrl (monitor s)) \<Longrightarrow>
   Ping_probe (ipOrUrl (monitor s)) None \<in> set (trace (snd (checkStatus_v2 w s)))"
  by (simp add: checkStatus_v2_def emit_def Let_def split: sum.splits)

lemma filter_post_checkStatus:
  "filter is_post (trace (snd (checkStatus w s))) = filter is_post (trace s)"
  using checkStatus_trace [of w s] by auto

lemma sendWebhook_never_throws: "fst (sendWebhook w st s) \<noteq> Some (Inl e)"
  by (simp add: sendWebhook_def Let_def split: option.splits sum.splits)

lemma sendWebhook_monitor: "monitor (snd (sendWebhook w st s)) = monitor s"
  by (simp add: sendWebhook_def emit_def Let_def split: option.splits sum.splits)

lemma sendWebhook_row: "row (snd (sendWebhook w st s)) = row s"
  by (simp add: sendWebhook_def emit_def Let_def split: option.splits sum.splits)

lemma sendWebhook_logs: "logs (snd (sendWebhook w st s)) = logs s"
  by (simp add: sendWebhook_def emit_def Let_def split: option.splits sum.splits)

lemma sendWebhook_unset:
  "webhookUrl (monitor s) = None \<or> webhookUrl (monitor s) = Some [] \<Longrightarrow>
   sendWebhook w st s = (Some (Inr ()), s)"
  by (auto simp: sendWebhook_def)

lemma sendWebhook_set:
  assumes "webhookUrl (monitor s) = Some url" "url \<noteq> []"
  shows "sendWebhook w st s =
           (case fetch w url (webhook_init w st) of
              None \<Rightarrow> (None, s\<lparr>trace := trace s @ [Fetch url (webhook_init w st)]\<rparr>)
            | Some (Inr res) \<Rightarrow>
                (Some (Inr ()),
                 s\<lparr>trace := trace s @
                    [Fetch url (webhook_init w st),
                     App_log Info (''Webhook sent to '' @ url @ '' for '' @ ipOrUrl (monitor s))]\<rparr>)
            | Some (Inl err) \<Rightarrow>
                (Some (Inr ()),
                 s\<lparr>trace := trace s @
                    [Fetch url (webhook_init w st),
                     App_log Err (''Failed to send webhook to '' @ url @ '': ''
                                    @ err_message err)]\<rparr>))"
  using assms by (simp add: sendWebhook_def emit_def Let_def split: option.splits sum.splits)

lemma sendWebhook_one_post:
  assumes "webhookUrl (monitor s) = Some url" "url \<noteq> []"
  shows "filter is_post (trace (snd (sendWebhook w st s))) =
           filter is_post (trace s) @ [Fetch url (webhook_init w st)]"
  by (simp add: sendWebhook_set [OF assms] webhook_init_def split: option.splits sum.splits)

lemma sendWebhook_v2_never_throws: "fst (sendWebhook_v2 w st s) \<noteq> Some (Inl e)"
  by (simp add: sendWebhook_v2_def sendWebhook_never_throws)

lemma sendWebhook_v2_one_post:
  assumes "webhookUrl (monitor s) = Some url" "url \<noteq> []"
  shows "filter is_post (trace (snd (sendWebhook_v2 w st s))) =
           filter is_post (trace s) @ [Fetch url (webhook_init w st)]"
proof -
  let ?s0 = "emit (Console_log ''Webhook:'') s"
  from assms have "webhookUrl (monitor ?s0) = Some url" by (simp add: emit_def)
  from sendWebhook_one_post [OF this assms(2), of w st] show ?thesis
    by (simp add: sendWebhook_v2_def) (simp add: emit_def)
qed

lemma updateMonitorStatus_accepted:
  assumes "db_create w = None" "db_update w = None"
  shows "updateMonitorStatus w st s =
     (Inr (), s\<lparr>monitor := (monitor s)\<lparr>lastStatus := Some st, lastChecked := Some (new_Date w)\<rparr>,
               row := (row s)\<lparr>lastStatus := Some st, lastChecked := Some (new_Date w)\<rparr>,
               logs := logs s @ [MonitorLog_row (ipOrUrl (monitor s)) st],
               trace := trace s @ [MonitorLog_create (ipOrUrl (monitor s)) st,
                                   Monitor_update st (new_Date w),
                                   App_log Info (ipOrUrl (monitor s) @ '' is now '' @ st)]\<rparr>)"
  using assms by (simp add: updateMonitorStatus_def emit_def Let_def)

lemma updateMonitorStatus_logs:
  "logs (snd (updateMonitorStatus w st s)) =
     (if db_create w = None then logs s @ [MonitorLog_row (ipOrUrl (monitor s)) st] else logs s)"
  by (simp add: updateMonitorStatus_def emit_def Let_def split: option.splits)

lemma updateMonitorStatus_row:
  "row (snd (updateMonitorStatus w st s)) =
     (if db_create w = None \<and> db_update w = None
      then (row s)\<lparr>lastStatus := Some st, lastChecked := Some (new_Date w)\<rparr> else row s)"
  by (simp add: updateMonitorStatus_def emit_def Let_def split: option.splits)


lemma catch_log_frame:
  "logs (snd (catch_log e s)) = logs s" "monitor (snd (catch_log e s)) = monitor s"
  "row (snd (catch_log e s)) = row s" "fst (catch_log e s) = Some (Inr ())"
  by (simp_all add: catch_log_def emit_def)

subsection \<open>The three ways through \<open>handleMonitor\<close>\<close>

lemma handleMonitor_unchanged:
  assumes "fst (checkStatus w s) = Inr st" "lastStatus (monitor s) = Some st"
  shows "handleMonitor w s = (Some (Inr ()), snd (checkStatus w s))"
  using assms checkStatus_monitor [of w s]
  by (cases "checkStatus w s") (simp add: handleMonitor_def)

lemma handleMonitor_thrown:
  assumes "fst (checkStatus w s) = Inl e"
  shows "handleMonitor w s = catch_log e (snd (checkStatus w s))"
  using assms by (cases "checkStatus w s") (simp add: handleMonitor_def)

lemma handleMonitor_changed:
  assumes "fst (checkStatus w s) = Inr st" "lastStatus (monitor s) \<noteq> Some st"
  shows "handleMonitor w s =
     (case updateMonitorStatus w st (snd (checkStatus w s)) of
        (Inl error, s2) \<Rightarrow> catch_log error s2
      | (Inr u, s2) \<Rightarrow> sendWebhook w st s2)"
proof -
  obtain r s1 where c: "checkStatus w s = (r, s1)" by (cases "checkStatus w s")
  with assms(1) have r: "r = Inr st" by simp
  from c checkStatus_monitor [of w s] have m: "monitor s1 = monitor s" by simp
  obtain r2 s2 where u: "updateMonitorStatus w st s1 = (r2, s2)"
    by (cases "updateMonitorStatus w st s1")
  show ?thesis
  proof (cases r2)
    case (Inl e)
    with assms(2) show ?thesis by (simp add: handleMonitor_def c r m u)
  next
    case (Inr x)
    obtain r3 s3 where sw: "sendWebhook w st s2 = (r3, s3)" by (cases "sendWebhook w st s2")
    have "r3 = None \<or> r3 = Some (Inr ())"
    proof (cases r3)
      case None
      then show ?thesis by simp
    next
      case (Some a)
      with sw sendWebhook_never_throws [of w st s2] show ?thesis by (cases a) auto
    qed
    with assms(2) show ?thesis by (auto simp: handleMonitor_def c r m u Inr sw)
  qed
qed

lemma handleMonitor_never_throws: "fst (handleMonitor w s) \<noteq> Some (Inl e)"
  by (simp add: handleMonitor_def catch_log_def split: prod.splits sum.splits option.splits)

lemma handleMonitor_logs:
  "logs (snd (handleMonitor w s)) =
     (case fst (checkStatus w s) of
        Inl e \<Rightarrow> logs s
      | Inr st \<Rightarrow>
          if Some st \<noteq> lastStatus (monitor s) \<and> db_create w = None
          then logs s @ [MonitorLog_row (ipOrUrl (monitor s)) st] else logs s)"
proof (cases "fst (checkStatus w s)")
  case (Inl e)
  then show ?thesis
    by (simp add: handleMonitor_thrown catch_log_frame checkStatus_logs)
next
  case (Inr st)
  show ?thesis
  proof (cases "lastStatus (monitor s) = Some st")
    case True
    with Inr show ?thesis by (simp add: handleMonitor_unchanged checkStatus_logs)
  next
    case False
    let ?s1 = "snd (checkStatus w s)"
    obtain r2 s2 where u: "updateMonitorStatus w st ?s1 = (r2, s2)"
      by (cases "updateMonitorStatus w st ?s1")
    with updateMonitorStatus_logs [of w st ?s1]
    have l: "logs s2 =
       (if db_create w = None then logs s @ [MonitorLog_row (ipOrUrl (monitor s)) st] else logs s)"
      by (simp add: checkStatus_logs checkStatus_monitor)
    have "logs (snd (handleMonitor w s)) = logs s2"
      using Inr False u
      by (cases r2) (simp_all add: handleMonitor_changed catch_log_frame sendWebhook_logs)
    with l Inr False show ?thesis by auto
  qed
qed

lemma handleMonitor_row:
  "row (snd (handleMonitor w s)) =
     (case fst (checkStatus w s) of
        Inl e \<Rightarrow> row s
      | Inr st \<Rightarrow>
          if Some st \<noteq> lastStatus (monitor s) \<and> db_create w = None \<and> db_update w = None
          then (row s)\<lparr>lastStatus := Some st, lastChecked := Some (new_Date w)\<rparr> else row s)"
proof (cases "fst (checkStatus w s)")
  case (Inl e)
  then show ?thesis
    by (simp add: handleMonitor_thrown catch_log_frame checkStatus_row)
next
  case (Inr st)
  show ?thesis
  proof (cases "lastStatus (monitor s) = Some st")
    case True
    with Inr show ?thesis by (simp add: handleMonitor_unchanged checkStatus_row)
  next
    case False
    let ?s1 = "snd (checkStatus w s)"
    obtain r2 s2 where u: "updateMonitorStatus w st ?s1 = (r2, s2)"
      by (cases "updateMonitorStatus w st ?s1")
    with updateMonitorStatus_row [of w st ?s1]
    have l: "row s2 =
       (if db_create w = None \<and> db_update w = None
        then (row s)\<lparr>lastStatus := Some st, lastChecked := Some (new_Date w)\<rparr> else row s)"
      by (simp add: checkStatus_row)
    have "row (snd (handleMonitor w s)) = row s2"
      using Inr False u
      by (cases r2) (simp_all add: handleMonitor_changed catch_log_frame sendWebhook_row)
    with l Inr False show ?thesis by auto
  qed
qed

lemma fresh_fields:
  "monitor (fresh m) = m" "row (fresh m) = m" "logs (fresh m) = []" "trace (fresh m) = []"
  by (simp_all add: fresh_def)

lemma site_values:
  "ipOrUrl site = ''http://example.com''" "lastStatus site = Some ''online''"
  "lastChecked site = None" "webhookUrl site = Some ''http://hooks.example.com/up''"
  by (simp_all add: site_def)

lemma Monitor_create_values:
  "ipOrUrl (Monitor_create a) = a" "lastStatus (Monitor_create a) = Some ''offline''"
  "lastChecked (Monitor_create a) = None" "webhookUrl (Monitor_create a) = None"
  by (simp_all add: Monitor_create_def)

lemmas site_fields = fresh_fields site_values

lemmas google_fields = fresh_fields Monitor_create_values

subsection \<open>Change detection\<close>

text \<open>
  Claim C1, as the code has it. A row is added to the log exactly when the probe
  returned a status different from the monitor's \<^verbatim>\<open>lastStatus\<close> and the store accepted
  the new row; then it is one row, with that status. When the store accepts the update
  as well, the monitor, instance and row, takes the status as its \<^verbatim>\<open>lastStatus\<close> and
  the time of the update as \<^verbatim>\<open>lastChecked\<close>. A run that adds no row leaves the row of
  the monitor as it was.
\<close>

theorem status_event_iff_changed:
  "(logs (snd (handleMonitor w s)) \<noteq> logs s \<longleftrightarrow>
      (\<exists>st. fst (checkStatus w s) = Inr st \<and> Some st \<noteq> lastStatus (monitor s) \<and>
            db_create w = None)) \<and>
   (\<forall>st. fst (checkStatus w s) = Inr st \<and> Some st \<noteq> lastStatus (monitor s) \<and>
         db_create w = None \<longrightarrow>
      logs (snd (handleMonitor w s)) = logs s @ [MonitorLog_row (ipOrUrl (monitor s)) st] \<and>
      (db_update w = None \<longrightarrow>
         row (snd (handleMonitor w s)) =
           (row s)\<lparr>lastStatus := Some st, lastChecked := Some (new_Date w)\<rparr> \<and>
         monitor (snd (handleMonitor w s)) =
           (monitor s)\<lparr>lastStatus := Some st, lastChecked := Some (new_Date w)\<rparr>)) \<and>
   (logs (snd (handleMonitor w s)) = logs s \<longrightarrow> row (snd (handleMonitor w s)) = row s)"
proof (cases "fst (checkStatus w s)")
  case (Inl e)
  then show ?thesis by (simp add: handleMonitor_logs handleMonitor_row)
next
  case (Inr st)
  have m: "monitor (snd (handleMonitor w s)) =
             (monitor s)\<lparr>lastStatus := Some st, lastChecked := Some (new_Date w)\<rparr>"
    if "Some st \<noteq> lastStatus (monitor s)" "db_create w = None" "db_update w = None"
    using that Inr
    by (auto simp: handleMonitor_changed updateMonitorStatus_accepted sendWebhook_monitor
        checkStatus_monitor)
  with Inr show ?thesis by (auto simp: handleMonitor_logs handleMonitor_row)
qed

theorem status_event_iff_changed_witness:
  "fst (checkStatus calm_world (fresh (Monitor_create ''8.8.8.8''))) = Inr ''online'' \<and>
   Some ''online'' \<noteq> lastStatus (monitor (fresh (Monitor_create ''8.8.8.8''))) \<and>
   db_create calm_world = None \<and> db_update calm_world = None \<and>
   logs (snd (handleMonitor calm_world (fresh (Monitor_create ''8.8.8.8'')))) =
     [\<lparr>log_ipOrUrl = ''8.8.8.8'', log_status = ''online'', log_timestamp = None\<rparr>] \<and>
   row (snd (handleMonitor calm_world (fresh (Monitor_create ''8.8.8.8'')))) =
     \<lparr>ipOrUrl = ''8.8.8.8'', lastStatus = Some ''online'', lastChecked = Some 1700000000005,
      webhookUrl = None\<rparr> \<and>
   monitor (snd (handleMonitor calm_world (fresh (Monitor_create ''8.8.8.8'')))) =
     \<lparr>ipOrUrl = ''8.8.8.8'', lastStatus = Some ''online'', lastChecked = Some 1700000000005,
      webhookUrl = None\<rparr>"
proof -
  let ?s = "fresh (Monitor_create ''8.8.8.8'')"
  have a: "db_create calm_world = None" "db_update calm_world = None"
    "new_Date calm_world = 1700000000005"
    by (simp_all add: calm_world_def)
  have p: "fst (checkStatus calm_world ?s) = Inr ''online''"
    by (simp add: checkStatus_cases google_fields classify_samples calm_world_def)
  have d: "Some ''online'' \<noteq> lastStatus (monitor ?s)"
    by (simp add: google_fields)
  from status_event_iff_changed [where w = calm_world and s = ?s] a p d
  have "logs (snd (handleMonitor calm_world ?s)) =
          logs ?s @ [MonitorLog_row (ipOrUrl (monitor ?s)) ''online''] \<and>
        row (snd (handleMonitor calm_world ?s)) =
          (row ?s)\<lparr>lastStatus := Some ''online'', lastChecked := Some (new_Date calm_world)\<rparr> \<and>
        monitor (snd (handleMonitor calm_world ?s)) =
          (monitor ?s)\<lparr>lastStatus := Some ''online'', lastChecked := Some (new_Date calm_world)\<rparr>"
    by blast
  with a p d show ?thesis
    by (simp add: google_fields MonitorLog_row_def)
qed

text \<open>
  Against claim C1 as stated: the probe of a new monitor returns \<open>online\<close>, which differs
  from its \<open>offline\<close>. When the store rejects the new row, the run adds no row. When
  the store rejects the update, the run adds the row and the row of the monitor keeps
  \<open>offline\<close>.
\<close>

theorem status_change_without_event_counterexample:
  "fst (checkStatus create_rejected_world (fresh (Monitor_create ''8.8.8.8''))) = Inr ''online'' \<and>
   lastStatus (monitor (fresh (Monitor_create ''8.8.8.8''))) = Some ''offline'' \<and>
   logs (snd (handleMonitor create_rejected_world (fresh (Monitor_create ''8.8.8.8'')))) = [] \<and>
   fst (checkStatus update_rejected_world (fresh (Monitor_create ''8.8.8.8''))) = Inr ''online'' \<and>
   logs (snd (handleMonitor update_rejected_world (fresh (Monitor_create ''8.8.8.8'')))) =
     [\<lparr>log_ipOrUrl = ''8.8.8.8'', log_status = ''online'', log_timestamp = None\<rparr>] \<and>
   lastStatus (row (snd (handleMonitor update_rejected_world (fresh (Monitor_create ''8.8.8.8''))))) =
     Some ''offline''"
proof -
  let ?s = "fresh (Monitor_create ''8.8.8.8'')"
  have p: "fst (checkStatus create_rejected_world ?s) = Inr ''online''"
    "fst (checkStatus update_rejected_world ?s) = Inr ''online''"
    by (simp_all add: checkStatus_cases google_fields classify_samples
        create_rejected_world_def update_rejected_world_def calm_world_def)
  have d: "db_create create_rejected_world = Some busy" "db_create update_rejected_world = None"
    "db_update update_rejected_world = Some busy"
    by (simp_all add: create_rejected_world_def update_rejected_world_def calm_world_def)
  show ?thesis
    by (simp add: p d handleMonitor_logs handleMonitor_row google_fields MonitorLog_row_def)
qed

text \<open>
  After a rejected update the next tick reads \<open>offline\<close> from the row again, and the
  same change of status is logged a second time.
\<close>

lemma rejected_update_logs_twice:
  "logs (snd (handleMonitor update_rejected_world
            (reload (snd (handleMonitor update_rejected_world
                            (fresh (Monitor_create ''8.8.8.8''))))))) =
     [MonitorLog_row ''8.8.8.8'' ''online'', MonitorLog_row ''8.8.8.8'' ''online'']"
proof -
  let ?s = "fresh (Monitor_create ''8.8.8.8'')"
  let ?t = "reload (snd (handleMonitor update_rejected_world ?s))"
  have p: "fst (checkStatus update_rejected_world ?s) = Inr ''online''"
    by (simp add: checkStatus_cases google_fields classify_samples
        update_rejected_world_def calm_world_def)
  have d: "db_create update_rejected_world = None" "db_update update_rejected_world = Some busy"
    by (simp_all add: update_rejected_world_def calm_world_def)
  have t: "monitor ?t = Monitor_create ''8.8.8.8''"
    "logs ?t = [MonitorLog_row ''8.8.8.8'' ''online'']"
    by (simp_all add: reload_def handleMonitor_row handleMonitor_logs p d google_fields)
  then have "fst (checkStatus update_rejected_world ?t) = Inr ''online''"
    by (simp add: checkStatus_cases classify_samples Monitor_create_def
        update_rejected_world_def calm_world_def)
  with t d show ?thesis
    by (simp add: handleMonitor_logs) (simp add: Monitor_create_def)
qed

text \<open>
  Claim C6. When the probe returns the status the monitor already has, the run adds no
  row to the log, writes nothing to the store, posts no webhook and leaves the monitor,
  \<^verbatim>\<open>lastChecked\<close> included, as it was: the probe is the only call it makes.
\<close>

theorem unchanged_status_no_effects:
  assumes "fst (checkStatus w s) = Inr st" and "lastStatus (monitor s) = Some st"
  shows "logs (snd (handleMonitor w s)) = logs s \<and>
         monitor (snd (handleMonitor w s)) = monitor s \<and>
         row (snd (handleMonitor w s)) = row s \<and>
         lastChecked (monitor (snd (handleMonitor w s))) = lastChecked (monitor s) \<and>
         fst (handleMonitor w s) = Some (Inr ()) \<and>
         (\<exists>e. trace (snd (handleMonitor w s)) = trace s @ [e] \<and> \<not> is_write e \<and> \<not> is_post e)"
  using checkStatus_trace [of w s]
  by (auto simp: handleMonitor_unchanged [OF assms] checkStatus_logs checkStatus_monitor
      checkStatus_row)

theorem unchanged_status_no_effects_witness:
  "fst (checkStatus calm_world (fresh site)) = Inr ''online'' \<and>
   lastStatus (monitor (fresh site)) = Some ''online'' \<and>
   logs (snd (handleMonitor calm_world (fresh site))) = [] \<and>
   monitor (snd (handleMonitor calm_world (fresh site))) = site \<and>
   row (snd (handleMonitor calm_world (fresh site))) = site \<and>
   lastChecked (monitor (snd (handleMonitor calm_world (fresh site)))) = None"
proof -
  have p: "fst (checkStatus calm_world (fresh site)) = Inr ''online''"
    by (simp add: checkStatus_cases site_fields classify_samples calm_world_def
        fetch_with_signal_def)
  have l: "lastStatus (monitor (fresh site)) = Some ''online''"
    by (simp add: site_fields)
  show ?thesis
    using unchanged_status_no_effects [OF p l] p l
    by (simp add: site_fields)
qed

subsection \<open>The prober\<close>

text \<open>
  Claim C3, as the code has it. \<^verbatim>\<open>checkStatus\<close> returns \<open>online\<close> or \<open>offline\<close>
  (the other revision: or \<open>timeout\<close>) on every path but one: on the URL branch, an
  error of the HEAD request whose name is not \<open>AbortError\<close> is thrown again, in both
  revisions. \<^verbatim>\<open>handleMonitor\<close> catches it and returns normally, and no run of
  \<^verbatim>\<open>handleMonitor\<close> throws.
\<close>

theorem checkStatus_outcomes:
  "(case fst (checkStatus w s) of
      Inr st \<Rightarrow> st = ''online'' \<or> st = ''offline''
    | Inl e \<Rightarrow> \<not> checkIpAddress (ipOrUrl (monitor s)) \<and>
               fetch w (ipOrUrl (monitor s)) (head_init w) = Some (Inl e) \<and>
               err_name e \<noteq> ''AbortError'' \<and>
               fst (handleMonitor w s) = Some (Inr ())) \<and>
   (case fst (checkStatus_v2 w s) of
      Inr st \<Rightarrow> st = ''online'' \<or> st = ''offline'' \<or> st = ''timeout''
    | Inl e \<Rightarrow> \<not> isIpAddress_v2 (ipOrUrl (monitor s)) \<and>
               fetch w (ipOrUrl (monitor s)) (head_init w) = Some (Inl e) \<and>
               err_name e \<noteq> ''AbortError'') \<and>
   (\<forall>e. fst (handleMonitor w s) \<noteq> Some (Inl e))"
proof -
  have "fst (handleMonitor w s) = Some (Inr ())" if "fst (checkStatus w s) = Inl e" for e
    using that by (simp add: handleMonitor_thrown catch_log_frame)
  moreover have "fetch w (ipOrUrl (monitor s)) (head_init w) = Some (Inl e)"
    if "fetch_with_signal w (ipOrUrl (monitor s)) (head_init w) = Inl e"
      "err_name e \<noteq> ''AbortError''" for e
    using that by (rule fetch_with_signal_thrown)
  ultimately show ?thesis
    by (auto simp: checkStatus_cases checkStatus_v2_cases handleMonitor_never_throws
        split: sum.splits if_splits)
qed

theorem checkStatus_outcomes_witness:
  "fst (checkStatus calm_world (fresh site)) = Inr ''online'' \<and>
   fst (checkStatus_v2 aborting_world (fresh site)) = Inr ''timeout'' \<and>
   fst (checkStatus refusing_world (fresh site)) = Inl refused \<and>
   fst (handleMonitor refusing_world (fresh site)) = Some (Inr ())"
proof -
  have p: "fst (checkStatus refusing_world (fresh site)) = Inl refused"
    by (simp add: checkStatus_cases site_fields classify_samples fetch_with_signal_def
        refusing_world_def calm_world_def refused_def)
  from checkStatus_outcomes [where w = refusing_world and s = "fresh site"] p
  have "fst (handleMonitor refusing_world (fresh site)) = Some (Inr ())" by simp
  with p show ?thesis
    using checkStatus_outcomes [where w = calm_world and s = "fresh site"]
      checkStatus_outcomes [where w = aborting_world and s = "fresh site"]
    by (simp add: checkStatus_cases checkStatus_v2_cases site_fields classify_samples
        fetch_with_signal_def calm_world_def aborting_world_def abort_error_def)
qed

text \<open>
  Against claim C3 as stated: a refused connection to a monitored URL leaves
  \<^verbatim>\<open>checkStatus\<close> as a thrown \<open>FetchError\<close>, not as a status.
\<close>

theorem checkStatus_throws_counterexample:
  "fetch refusing_world ''http://example.com'' (head_init refusing_world) = Some (Inl refused) \<and>
   err_name refused = ''FetchError'' \<and>
   fst (checkStatus refusing_world (fresh site)) = Inl refused \<and>
   fst (checkStatus_v2 refusing_world (fresh site)) = Inl refused"
  by (simp add: checkStatus_cases checkStatus_v2_cases site_fields classify_samples
      fetch_with_signal_def refusing_world_def calm_world_def refused_def)

text \<open>
  Claim C4, as the code has it. When the HEAD request of a URL target is rejected, an
  \<open>AbortError\<close> gives \<open>offline\<close> (\<open>timeout\<close> in the other revision); any other error
  is thrown again by \<^verbatim>\<open>checkStatus\<close>, and \<^verbatim>\<open>handleMonitor\<close> logs it and changes neither
  the monitor nor the log table.
\<close>

theorem url_transport_errors:
  assumes "fetch w (ipOrUrl (monitor s)) (head_init w) = Some (Inl e)"
  shows "(\<not> checkIpAddress (ipOrUrl (monitor s)) \<longrightarrow>
            fst (checkStatus w s) = (if err_name e = ''AbortError'' then Inr ''offline'' else Inl e)) \<and>
         (\<not> isIpAddress_v2 (ipOrUrl (monitor s)) \<longrightarrow>
            fst (checkStatus_v2 w s) = (if err_name e = ''AbortError'' then Inr ''timeout'' else Inl e)) \<and>
         (\<not> checkIpAddress (ipOrUrl (monitor s)) \<and> err_name e \<noteq> ''AbortError'' \<longrightarrow>
            handleMonitor w s =
              (Some (Inr ()), s\<lparr>trace := trace s @
                 [Fetch (ipOrUrl (monitor s)) (head_init w),
                  App_log Err (''Error checking '' @ ipOrUrl (monitor s) @ '': '' @ err_message e)]\<rparr>))"
proof -
  from assms have f: "fetch_with_signal w (ipOrUrl (monitor s)) (head_init w) = Inl e"
    by (rule fetch_with_signal_settled)
  have "handleMonitor w s =
          (Some (Inr ()), s\<lparr>trace := trace s @
             [Fetch (ipOrUrl (monitor s)) (head_init w),
              App_log Err (''Error checking '' @ ipOrUrl (monitor s) @ '': '' @ err_message e)]\<rparr>)"
    if "\<not> checkIpAddress (ipOrUrl (monitor s))" "err_name e \<noteq> ''AbortError''"
  proof -
    from that f have "checkStatus w s = (Inl e, emit (Fetch (ipOrUrl (monitor s)) (head_init w)) s)"
      by (simp add: checkStatus_def Let_def)
    then show ?thesis
      by (simp add: handleMonitor_def catch_log_def emit_def)
  qed
  with f show ?thesis
    by (simp add: checkStatus_cases checkStatus_v2_cases)
qed

theorem url_transport_errors_witness:
  "fetch refusing_world (ipOrUrl (monitor (fresh site))) (head_init refusing_world) =
     Some (Inl refused) \<and>
   \<not> checkIpAddress (ipOrUrl (monitor (fresh site))) \<and>
   \<not> isIpAddress_v2 (ipOrUrl (monitor (fresh site))) \<and>
   err_name refused \<noteq> ''AbortError'' \<and>
   fst (checkStatus refusing_world (fresh site)) = Inl refused \<and>
   fst (checkStatus_v2 refusing_world (fresh site)) = Inl refused \<and>
   handleMonitor refusing_world (fresh site) =
     (Some (Inr ()), \<lparr>monitor = site, row = site, logs = [],
               trace = [Fetch ''http://example.com'' (head_init refusing_world),
                        App_log Err ''Error checking http://example.com: connect ECONNREFUSED'']\<rparr>)"
proof -
  have f: "fetch refusing_world (ipOrUrl (monitor (fresh site))) (head_init refusing_world) =
      Some (Inl refused)"
    by (simp add: refusing_world_def calm_world_def)
  have n: "err_name refused \<noteq> ''AbortError''" "err_message refused = ''connect ECONNREFUSED''"
    by (simp_all add: refused_def)
  show ?thesis
    using url_transport_errors [OF f] f n
    by (simp add: site_fields classify_samples)
qed

text \<open>
  Against claim C4 as stated: for the monitored URL, an aborted request makes
  \<^verbatim>\<open>checkStatus\<close> return \<open>offline\<close>, and a refused connection makes it throw.
\<close>

theorem abort_is_offline_counterexample:
  "\<not> checkIpAddress ''http://example.com'' \<and>
   fetch aborting_world ''http://example.com'' (head_init aborting_world) = Some (Inl abort_error) \<and>
   err_name abort_error = ''AbortError'' \<and>
   fst (checkStatus aborting_world (fresh site)) = Inr ''offline'' \<and>
   fetch refusing_world ''http://example.com'' (head_init refusing_world) = Some (Inl refused) \<and>
   fst (checkStatus refusing_world (fresh site)) = Inl refused"
  by (simp add: checkStatus_cases site_fields classify_samples fetch_with_signal_def
      refusing_world_def aborting_world_def calm_world_def refused_def abort_error_def)

text \<open>
  For an address the classifier takes for an IP literal, \<^verbatim>\<open>checkStatus\<close> makes one
  call, the ping probe with the option \<^verbatim>\<open>timeout\<close> set to \<^verbatim>\<open>TIMEOUT_MS / 1000\<close>
  seconds, where \<^verbatim>\<open>TIMEOUT_MS\<close> is the configured number of milliseconds, or 5000 when
  none (or 0) is configured; it returns \<open>online\<close> when the probe reports the host
  alive and \<open>offline\<close> in every other case, a rejected probe included.
\<close>

lemma ping_bounded_by_timeout:
  assumes "checkIpAddress (ipOrUrl (monitor s))"
  shows "trace (snd (checkStatus w s)) =
           trace s @ [Ping_probe (ipOrUrl (monitor s)) (Some (of_int (TIMEOUT_MS w) / 1000))] \<and>
         fst (checkStatus w s) =
           Inr (if ping_probe w (ipOrUrl (monitor s)) (Some (of_int (TIMEOUT_MS w) / 1000))
                     = Inr (PingResponse True)
                then ''online'' else ''offline'') \<and>
         (\<forall>n. env_TIMEOUT_MS w = Some n \<and> n \<noteq> 0 \<longrightarrow>
            trace (snd (checkStatus w s)) =
              trace s @ [Ping_probe (ipOrUrl (monitor s)) (Some (of_int n / 1000))]) \<and>
         (env_TIMEOUT_MS w = None \<or> env_TIMEOUT_MS w = Some 0 \<longrightarrow>
            trace (snd (checkStatus w s)) = trace s @ [Ping_probe (ipOrUrl (monitor s)) (Some 5)])"
proof -
  have t: "trace (snd (checkStatus w s)) =
           trace s @ [Ping_probe (ipOrUrl (monitor s)) (Some (of_int (TIMEOUT_MS w) / 1000))]"
    using assms by (simp add: checkStatus_def emit_def Let_def split: sum.splits)
  have "TIMEOUT_MS w = n" if "env_TIMEOUT_MS w = Some n" "n \<noteq> 0" for n
    using that by (simp add: TIMEOUT_MS_def)
  moreover have "TIMEOUT_MS w = 5000" if "env_TIMEOUT_MS w = None \<or> env_TIMEOUT_MS w = Some 0"
    using that by (auto simp: TIMEOUT_MS_def)
  ultimately show ?thesis
    using assms t by (auto simp: checkStatus_cases)
qed

lemma ping_bounded_by_timeout_sample:
  "trace (snd (checkStatus configured_world (fresh (Monitor_create ''8.8.8.8'')))) =
     [Ping_probe ''8.8.8.8'' (Some 2)] \<and>
   trace (snd (checkStatus dead_host_world (fresh (Monitor_create ''8.8.8.8'')))) =
     [Ping_probe ''8.8.8.8'' (Some 5)] \<and>
   fst (checkStatus dead_host_world (fresh (Monitor_create ''8.8.8.8''))) = Inr ''offline''"
proof -
  let ?s = "fresh (Monitor_create ''8.8.8.8'')"
  have c: "checkIpAddress (ipOrUrl (monitor ?s))"
    by (simp add: google_fields classify_samples)
  have e: "env_TIMEOUT_MS configured_world = Some 2000" "env_TIMEOUT_MS dead_host_world = None"
    "TIMEOUT_MS dead_host_world = 5000" "TIMEOUT_MS configured_world = 2000"
    "ping_probe dead_host_world = (\<lambda>host opts. Inr (PingResponse False))"
    by (simp_all add: configured_world_def dead_host_world_def calm_world_def TIMEOUT_MS_def)
  show ?thesis
    using ping_bounded_by_timeout [OF c, of configured_world]
      ping_bounded_by_timeout [OF c, of dead_host_world]
    by (simp add: e google_fields)
qed

text \<open>
  Claim C7, on the other revision of \<^verbatim>\<open>checkStatus\<close> (src/app.js, lines 370-379). With
  \<^verbatim>\<open>TIMEOUT_MS\<close> configured as 2000, that revision calls the ping probe for
  \<open>8.8.8.8\<close> without any option, where the first revision passes a timeout of 2
  seconds.
\<close>

theorem ping_v2_ignores_timeout:
  "isIpAddress_v2 ''8.8.8.8'' \<and> env_TIMEOUT_MS configured_world = Some 2000 \<and>
   TIMEOUT_MS configured_world = 2000 \<and>
   trace (snd (checkStatus_v2 configured_world (fresh (Monitor_create ''8.8.8.8'')))) =
     [Console_log ''Ping'', Ping_probe ''8.8.8.8'' None, Console_log ''Res:''] \<and>
   trace (snd (checkStatus configured_world (fresh (Monitor_create ''8.8.8.8'')))) =
     [Ping_probe ''8.8.8.8'' (Some 2)]"
proof -
  have e: "env_TIMEOUT_MS configured_world = Some 2000" "TIMEOUT_MS configured_world = 2000"
    "ping_probe configured_world = (\<lambda>host opts. Inr (PingResponse True))"
    by (simp_all add: configured_world_def calm_world_def TIMEOUT_MS_def)
  show ?thesis
    by (simp add: e checkStatus_def checkStatus_v2_def Let_def emit_def google_fields
        classify_samples)
qed

subsection \<open>The notifier\<close>

text \<open>
  Claim C8. Without a webhook URL \<^verbatim>\<open>sendWebhook\<close> does nothing. With one, it makes one
  POST to that URL, whose body has the two fields \<open>monitor_status\<close>, the new status, and
  \<open>timestamp\<close>, the clock in whole seconds. In a pipeline whose status changed and whose
  writes the store accepted, these are all the POST requests made.
\<close>

theorem webhook_posts:
  "(webhookUrl (monitor s) = None \<longrightarrow> sendWebhook w st s = (Some (Inr ()), s)) \<and>
   (\<forall>url. webhookUrl (monitor s) = Some url \<and> url \<noteq> [] \<longrightarrow>
      filter is_post (trace (snd (sendWebhook w st s))) =
        filter is_post (trace s) @
          [Fetch url \<lparr>http_method = ''POST'',
                      headers = [(''Content-Type'', ''application/json'')],
                      body = Some (JObject [(''monitor_status'', JString st),
                                            (''timestamp'', JNumber (int (Date_now w div 1000)))]),
                      signal = None\<rparr>]) \<and>
   (\<forall>new. fst (checkStatus w s) = Inr new \<and> Some new \<noteq> lastStatus (monitor s) \<and>
          db_create w = None \<and> db_update w = None \<longrightarrow>
      filter is_post (trace (snd (handleMonitor w s))) =
        filter is_post (trace s) @
          (case webhookUrl (monitor s) of
             None \<Rightarrow> []
           | Some url \<Rightarrow> if url = [] then [] else [Fetch url (webhook_init w new)]))"
proof (intro conjI allI impI)
  assume "webhookUrl (monitor s) = None"
  then show "sendWebhook w st s = (Some (Inr ()), s)" by (simp add: sendWebhook_unset)
next
  fix url assume "webhookUrl (monitor s) = Some url \<and> url \<noteq> []"
  then have "filter is_post (trace (snd (sendWebhook w st s))) =
        filter is_post (trace s) @ [Fetch url (webhook_init w st)]"
    by (simp add: sendWebhook_one_post)
  then show "filter is_post (trace (snd (sendWebhook w st s))) =
        filter is_post (trace s) @
          [Fetch url \<lparr>http_method = ''POST'',
                      headers = [(''Content-Type'', ''application/json'')],
                      body = Some (JObject [(''monitor_status'', JString st),
                                            (''timestamp'', JNumber (int (Date_now w div 1000)))]),
                      signal = None\<rparr>]"
    by (simp add: webhook_init_def)
next
  fix new
  assume a: "fst (checkStatus w s) = Inr new \<and> Some new \<noteq> lastStatus (monitor s) \<and>
          db_create w = None \<and> db_update w = None"
  let ?s1 = "snd (checkStatus w s)"
  let ?s2 = "snd (updateMonitorStatus w new ?s1)"
  from a have h: "handleMonitor w s = sendWebhook w new ?s2"
    by (auto simp: handleMonitor_changed updateMonitorStatus_accepted)
  from a have m2: "webhookUrl (monitor ?s2) = webhookUrl (monitor s)"
    and t2: "filter is_post (trace ?s2) = filter is_post (trace s)"
    by (simp_all add: updateMonitorStatus_accepted checkStatus_monitor filter_post_checkStatus)
  show "filter is_post (trace (snd (handleMonitor w s))) =
        filter is_post (trace s) @
          (case webhookUrl (monitor s) of
             None \<Rightarrow> []
           | Some url \<Rightarrow> if url = [] then [] else [Fetch url (webhook_init w new)])"
  proof (cases "webhookUrl (monitor s) = None \<or> webhookUrl (monitor s) = Some []")
    case True
    with m2 have "sendWebhook w new ?s2 = (Some (Inr ()), ?s2)" by (simp add: sendWebhook_unset)
    with True h t2 show ?thesis by auto
  next
    case False
    then obtain url where u: "webhookUrl (monitor s) = Some url" "url \<noteq> []" by auto
    with m2 have "webhookUrl (monitor ?s2) = Some url" by simp
    from sendWebhook_one_post [OF this u(2), of w new] h t2 u show ?thesis
      by simp
  qed
qed

theorem webhook_posts_witness:
  "webhookUrl (monitor (fresh (Monitor_create ''8.8.8.8''))) = None \<and>
   sendWebhook calm_world ''online'' (fresh (Monitor_create ''8.8.8.8'')) =
     (Some (Inr ()), fresh (Monitor_create ''8.8.8.8'')) \<and>
   webhookUrl (monitor (fresh site)) = Some ''http://hooks.example.com/up'' \<and>
   filter is_post (trace (snd (sendWebhook calm_world ''offline'' (fresh site)))) =
     [Fetch ''http://hooks.example.com/up''
        \<lparr>http_method = ''POST'', headers = [(''Content-Type'', ''application/json'')],
         body = Some (JObject [(''monitor_status'', JString ''offline''),
                               (''timestamp'', JNumber 1700000000)]),
         signal = None\<rparr>] \<and>
   fst (checkStatus site_down_world (fresh site)) = Inr ''offline'' \<and>
   filter is_post (trace (snd (handleMonitor site_down_world (fresh site)))) =
     [Fetch ''http://hooks.example.com/up'' (webhook_init site_down_world ''offline'')]"
proof -
  have n: "webhookUrl (monitor (fresh (Monitor_create ''8.8.8.8''))) = None"
    by (simp add: google_fields)
  have p: "fst (checkStatus site_down_world (fresh site)) = Inr ''offline''"
    by (simp add: checkStatus_cases site_fields classify_samples site_down_world_def
        calm_world_def head_init_def fetch_with_signal_def)
  have d: "db_create site_down_world = None" "db_update site_down_world = None"
    "Date_now calm_world = 1700000000009"
    by (simp_all add: site_down_world_def calm_world_def)
  show ?thesis
    using webhook_posts [where w = calm_world and s = "fresh (Monitor_create ''8.8.8.8'')"
        and st = "''online''"]
      webhook_posts [where w = calm_world and s = "fresh site" and st = "''offline''"]
      webhook_posts [where w = site_down_world and s = "fresh site" and st = "''offline''"]
      n p d
    by (simp add: site_fields)
qed




subsection \<open>New monitors\<close>

text \<open>
  With the default of the other revision of the model, the first \<open>offline\<close> probe of a
  new monitor is a change of status.
\<close>

lemma new_monitor_v2_first_offline:
  assumes "monitor s = Monitor_create_v2 a" and "fst (checkStatus w s) = Inr ''offline''"
    and "db_create w = None"
  shows "logs (snd (handleMonitor w s)) = logs s @ [MonitorLog_row a ''offline'']"
  using assms by (simp add: handleMonitor_logs Monitor_create_v2_def)



end
